theory Spec2Isabelle
  imports Main
begin

section \<open>The packaging manifest \<open>rekallpy/setup.py\<close>\<close>

text \<open>
  The whole source file:
  \<^verbatim>\<open>
   1  from setuptools import setup
   2
   3  if __name__ == "__main__":
   4      setup(
   5          name='rekallpy',
   6          version_format='{tag}',
   7          description='Spatiotemporal query language',
   8          url='http://github.com/scanner-research/rekall',
   9          author='Dan Fu',
  10          author_email='danfu@stanford.edu',
  11          license='Apache 2.0',
  12          packages=['rekall'],
  13          install_requires=['python-constraint', 'tqdm', 'cloudpickle'],
  14          setup_requires=['setuptools-git-version', 'pytest-runner'],
  15          tests_require=['pytest'],
  16          zip_safe=False)
  \<close>
  It is embedded as a state transformer with exceptions: the statements of the module
  body run in order on a state holding the module namespace and the trace of the
  operations invoked so far. The package \<open>setuptools\<close> is not part of the repository;
  what the import finds and what the imported function does are parameters.
\<close>

subsection \<open>Values and keyword arguments\<close>

text \<open>The argument values the manifest writes: string literals, lists of string literals
  and a Boolean.\<close>

datatype pyval = Str string | StrList "string list" | Bool bool

text \<open>A call with keyword arguments only: the keywords with their values, in the order
  written. \<open>map_of\<close> reads the value of a keyword (\<open>None\<close>: keyword not passed).\<close>

type_synonym kwargs = "(string \<times> pyval) list"

subsection \<open>Exceptions, the environment and the state\<close>

text \<open>\<open>ImportError\<close>: line 1 finds no module \<open>setuptools\<close>, or no \<open>setup\<close> in it.
  \<open>NameError n\<close>: the name \<open>n\<close> is looked up and not bound.
  \<open>Raised c\<close>: an exception of class \<open>c\<close> raised inside the called external function.\<close>

datatype exn = ImportError | NameError string | Raised string

text \<open>An external function, as far as the manifest can observe it: called with keyword
  arguments it returns (\<open>None\<close>) or raises (\<open>Some c\<close>).\<close>

type_synonym callable = "kwargs \<Rightarrow> string option"

text \<open>The installed modules: module name to its attributes.\<close>

type_synonym environment = "string \<rightharpoonup> (string \<rightharpoonup> callable)"

datatype event = ImportFrom string string | Call string kwargs

record state =
  globals :: "string \<rightharpoonup> callable"
  events :: "event list"

text \<open>A statement ends normally in a state (\<open>Inr\<close>) or raises, leaving the state reached
  at the raise (\<open>Inl\<close>).\<close>

type_synonym outcome = "exn \<times> state + state"

definition final :: "outcome \<Rightarrow> state" where
  "final r = (case r of Inl (e, s) \<Rightarrow> s | Inr s \<Rightarrow> s)"

definition raised :: "outcome \<Rightarrow> exn option" where
  "raised r = (case r of Inl (e, s) \<Rightarrow> Some e | Inr s \<Rightarrow> None)"

subsection \<open>The statements\<close>

definition resolve :: "environment \<Rightarrow> string \<Rightarrow> string \<Rightarrow> callable option" where
  "resolve env m a = (case env m of None \<Rightarrow> None | Some attrs \<Rightarrow> attrs a)"

text \<open>\<^verbatim>\<open>from m import a\<close>: the import is attempted (an operation, recorded), and on
  success the name \<open>a\<close> is bound in the module namespace.\<close>

definition import_from :: "environment \<Rightarrow> string \<Rightarrow> string \<Rightarrow> state \<Rightarrow> outcome" where
  "import_from env m a s =
     (let s1 = s\<lparr>events := events s @ [ImportFrom m a]\<rparr> in
      case resolve env m a of
        None \<Rightarrow> Inl (ImportError, s1)
      | Some f \<Rightarrow> Inr (s1\<lparr>globals := (globals s1)(a \<mapsto> f)\<rparr>))"

text \<open>\<^verbatim>\<open>fn(**kw)\<close>: the name is looked up in the module namespace, then the function is
  called (an operation, recorded); an exception it raises propagates.\<close>

definition call :: "string \<Rightarrow> kwargs \<Rightarrow> state \<Rightarrow> outcome" where
  "call fn kw s =
     (case globals s fn of
        None \<Rightarrow> Inl (NameError fn, s)
      | Some f \<Rightarrow>
          (let s1 = s\<lparr>events := events s @ [Call fn kw]\<rparr> in
           case f kw of None \<Rightarrow> Inr s1 | Some c \<Rightarrow> Inl (Raised c, s1)))"

subsection \<open>The manifest\<close>

text \<open>Lines 5 to 16: the keyword arguments of the one call.\<close>

definition setup_kwargs :: kwargs where
  "setup_kwargs =
     [(''name'', Str ''rekallpy''),
      (''version_format'', Str ''{tag}''),
      (''description'', Str ''Spatiotemporal query language''),
      (''url'', Str ''http://github.com/scanner-research/rekall''),
      (''author'', Str ''Dan Fu''),
      (''author_email'', Str ''danfu@stanford.edu''),
      (''license'', Str ''Apache 2.0''),
      (''packages'', StrList [''rekall'']),
      (''install_requires'', StrList [''python-constraint'', ''tqdm'', ''cloudpickle'']),
      (''setup_requires'', StrList [''setuptools-git-version'', ''pytest-runner'']),
      (''tests_require'', StrList [''pytest'']),
      (''zip_safe'', Bool False)]"

text \<open>The module body, lines 1 to 16. \<open>dunder_name\<close> is the value of \<^verbatim>\<open>__name__\<close>.\<close>

definition setup_py :: "environment \<Rightarrow> string \<Rightarrow> state \<Rightarrow> outcome" where
  "setup_py env dunder_name s =
     (case import_from env ''setuptools'' ''setup'' s of
        Inl err \<Rightarrow> Inl err
      | Inr s1 \<Rightarrow>
          if dunder_name = ''__main__'' then call ''setup'' setup_kwargs s1 else Inr s1)"

subsection \<open>Observations\<close>

text \<open>The argument lists of the calls of \<open>setup\<close> in a trace, in order.\<close>

fun setup_calls :: "event list \<Rightarrow> kwargs list" where
  "setup_calls [] = []"
| "setup_calls (Call fn kw # es) =
     (if fn = ''setup'' then kw # setup_calls es else setup_calls es)"
| "setup_calls (ImportFrom m a # es) = setup_calls es"

text \<open>What one evaluation of the module passes to \<open>setup\<close>: the calls among the events
  it adds to the trace.\<close>

definition passed_to_setup :: "environment \<Rightarrow> string \<Rightarrow> state \<Rightarrow> kwargs list" where
  "passed_to_setup env dunder_name s =
     setup_calls (drop (length (events s)) (events (final (setup_py env dunder_name s))))"

text \<open>A module namespace with nothing bound by the manifest yet, and an empty trace.\<close>

definition fresh :: state where
  "fresh = \<lparr>globals = Map.empty, events = []\<rparr>"

text \<open>Three environments: \<open>setuptools\<close> installed with a \<open>setup\<close> that returns, installed
  with a \<open>setup\<close> that raises, and not installed.\<close>

definition env_installed :: environment where
  "env_installed = [''setuptools'' \<mapsto> [''setup'' \<mapsto> (\<lambda>kw. None)]]"

definition env_failing :: environment where
  "env_failing = [''setuptools'' \<mapsto> [''setup'' \<mapsto> (\<lambda>kw. Some ''DistutilsError'')]]"


section \<open>What an evaluation does\<close>

lemma setup_py_import_fails:
  "resolve env ''setuptools'' ''setup'' = None \<Longrightarrow>
   setup_py env nm s =
     Inl (ImportError, s\<lparr>events := events s @ [ImportFrom ''setuptools'' ''setup'']\<rparr>)"
  by (simp add: setup_py_def import_from_def)

lemma setup_py_not_main:
  "resolve env ''setuptools'' ''setup'' = Some f \<Longrightarrow> nm \<noteq> ''__main__'' \<Longrightarrow>
   setup_py env nm s =
     Inr (s\<lparr>globals := (globals s)(''setup'' \<mapsto> f),
            events := events s @ [ImportFrom ''setuptools'' ''setup'']\<rparr>)"
  by (simp add: setup_py_def import_from_def)

lemma setup_py_main:
  "resolve env ''setuptools'' ''setup'' = Some f \<Longrightarrow>
   setup_py env ''__main__'' s =
     (let s2 = s\<lparr>globals := (globals s)(''setup'' \<mapsto> f),
                  events := events s @
                    [ImportFrom ''setuptools'' ''setup'', Call ''setup'' setup_kwargs]\<rparr>
      in case f setup_kwargs of None \<Rightarrow> Inr s2 | Some c \<Rightarrow> Inl (Raised c, s2))"
  by (simp add: setup_py_def import_from_def call_def Let_def)

lemma passed_to_setup_eq:
  "passed_to_setup env nm s =
     (if nm = ''__main__'' \<and> resolve env ''setuptools'' ''setup'' \<noteq> None
      then [setup_kwargs] else [])"
proof (cases "resolve env ''setuptools'' ''setup''")
  case None
  then show ?thesis
    by (simp add: passed_to_setup_def setup_py_import_fails final_def)
next
  case (Some f)
  show ?thesis
  proof (cases "nm = ''__main__''")
    case True
    then show ?thesis
      using Some
      by (simp add: passed_to_setup_def setup_py_main final_def Let_def split: option.split)
  next
    case False
    then show ?thesis
      using Some by (simp add: passed_to_setup_def setup_py_not_main final_def)
  qed
qed

lemma passed_installed_main:
  "passed_to_setup env_installed ''__main__'' fresh = [setup_kwargs]"
  by (simp add: passed_to_setup_eq resolve_def env_installed_def)

lemma passed_mem:
  "kw \<in> set (passed_to_setup env nm s) \<Longrightarrow> kw = setup_kwargs"
  by (simp add: passed_to_setup_eq split: if_splits)

lemma returns_when_externals_do:
  "resolve env ''setuptools'' ''setup'' = Some f \<Longrightarrow> f setup_kwargs = None \<Longrightarrow>
   raised (setup_py env nm s) = None"
  by (cases "nm = ''__main__''") (simp_all add: setup_py_main setup_py_not_main raised_def)

section \<open>The declared metadata\<close>

text \<open>
  C9. The manifest declares the package as not zip-safe: in every evaluation, whatever is
  passed to \<open>setup\<close> has the keyword \<open>zip_safe\<close> with the value \<open>False\<close>.
\<close>

theorem zip_safe_is_False:
  "kw \<in> set (passed_to_setup env nm s) \<Longrightarrow> map_of kw ''zip_safe'' = Some (Bool False)"
  by (auto dest!: passed_mem simp: setup_kwargs_def)

theorem zip_safe_is_False_witness:
  "setup_kwargs \<in> set (passed_to_setup env_installed ''__main__'' fresh) \<and>
   map_of setup_kwargs ''zip_safe'' = Some (Bool False)"
proof -
  have h: "setup_kwargs \<in> set (passed_to_setup env_installed ''__main__'' fresh)"
    by (simp add: passed_installed_main)
  from zip_safe_is_False [OF h] h show ?thesis by simp
qed

text \<open>
  C2. The manifest declares exactly one importable module unit: the \<open>packages\<close> argument
  passed to \<open>setup\<close> is a list with exactly one element.
\<close>

theorem packages_is_singleton:
  "kw \<in> set (passed_to_setup env nm s) \<Longrightarrow>
   \<exists>ps. map_of kw ''packages'' = Some (StrList ps) \<and> length ps = 1"
  by (auto dest!: passed_mem simp: setup_kwargs_def)

theorem packages_is_singleton_witness:
  "setup_kwargs \<in> set (passed_to_setup env_installed ''__main__'' fresh) \<and>
   (\<exists>ps. map_of setup_kwargs ''packages'' = Some (StrList ps) \<and> length ps = 1)"
proof -
  have h: "setup_kwargs \<in> set (passed_to_setup env_installed ''__main__'' fresh)"
    by (simp add: passed_installed_main)
  from packages_is_singleton [OF h] h show ?thesis by simp
qed

text \<open>
  C3. The manifest declares exactly three runtime dependencies, in this order:
  \<open>python-constraint\<close>, \<open>tqdm\<close> and \<open>cloudpickle\<close>. The \<open>install_requires\<close> argument
  passed to \<open>setup\<close> is that list.
\<close>

theorem install_requires_three:
  "kw \<in> set (passed_to_setup env nm s) \<Longrightarrow>
   \<exists>ds. map_of kw ''install_requires'' = Some (StrList ds) \<and>
        ds = [''python-constraint'', ''tqdm'', ''cloudpickle''] \<and> length ds = 3"
  by (auto dest!: passed_mem simp: setup_kwargs_def)

theorem install_requires_three_witness:
  "setup_kwargs \<in> set (passed_to_setup env_installed ''__main__'' fresh) \<and>
   (\<exists>ds. map_of setup_kwargs ''install_requires'' = Some (StrList ds) \<and>
        ds = [''python-constraint'', ''tqdm'', ''cloudpickle''] \<and> length ds = 3)"
proof -
  have h: "setup_kwargs \<in> set (passed_to_setup env_installed ''__main__'' fresh)"
    by (simp add: passed_installed_main)
  from install_requires_three [OF h] h show ?thesis by simp
qed

text \<open>
  C4. The version is left to the source-control tag: what is passed to \<open>setup\<close> has
  \<open>version_format\<close> equal to \<open>{tag}\<close>, lists \<open>setuptools-git-version\<close> in
  \<open>setup_requires\<close>, and has no \<open>version\<close> keyword (no literal version string).
\<close>

theorem version_from_tag:
  "kw \<in> set (passed_to_setup env nm s) \<Longrightarrow>
   map_of kw ''version_format'' = Some (Str ''{tag}'') \<and>
   (\<exists>rs. map_of kw ''setup_requires'' = Some (StrList rs) \<and>
         ''setuptools-git-version'' \<in> set rs) \<and>
   map_of kw ''version'' = None"
  by (auto dest!: passed_mem simp: setup_kwargs_def)

theorem version_from_tag_witness:
  "setup_kwargs \<in> set (passed_to_setup env_installed ''__main__'' fresh) \<and>
   map_of setup_kwargs ''version_format'' = Some (Str ''{tag}'') \<and>
   (\<exists>rs. map_of setup_kwargs ''setup_requires'' = Some (StrList rs) \<and>
         ''setuptools-git-version'' \<in> set rs) \<and>
   map_of setup_kwargs ''version'' = None"
proof -
  have h: "setup_kwargs \<in> set (passed_to_setup env_installed ''__main__'' fresh)"
    by (simp add: passed_installed_main)
  from version_from_tag [OF h] h show ?thesis by simp
qed

text \<open>
  C5. The test dependency and its packaging hook: what is passed to \<open>setup\<close> lists
  \<open>pytest\<close> in \<open>tests_require\<close> and \<open>pytest-runner\<close> in \<open>setup_requires\<close>.
\<close>

theorem pytest_and_runner:
  "kw \<in> set (passed_to_setup env nm s) \<Longrightarrow>
   (\<exists>ts. map_of kw ''tests_require'' = Some (StrList ts) \<and> ''pytest'' \<in> set ts) \<and>
   (\<exists>rs. map_of kw ''setup_requires'' = Some (StrList rs) \<and> ''pytest-runner'' \<in> set rs)"
  by (auto dest!: passed_mem simp: setup_kwargs_def)

theorem pytest_and_runner_witness:
  "setup_kwargs \<in> set (passed_to_setup env_installed ''__main__'' fresh) \<and>
   (\<exists>ts. map_of setup_kwargs ''tests_require'' = Some (StrList ts) \<and> ''pytest'' \<in> set ts) \<and>
   (\<exists>rs. map_of setup_kwargs ''setup_requires'' = Some (StrList rs) \<and>
         ''pytest-runner'' \<in> set rs)"
proof -
  have h: "setup_kwargs \<in> set (passed_to_setup env_installed ''__main__'' fresh)"
    by (simp add: passed_installed_main)
  from pytest_and_runner [OF h] h show ?thesis by simp
qed

text \<open>
  C6. Every metadata field is supplied: what is passed to \<open>setup\<close> has a non-empty
  \<open>name\<close>, \<open>version_format\<close>, \<open>install_requires\<close> and \<open>license\<close>, and its \<open>description\<close>
  is \<open>Spatiotemporal query language\<close>.
\<close>

theorem metadata_fields_present:
  "kw \<in> set (passed_to_setup env nm s) \<Longrightarrow>
   (\<exists>n. map_of kw ''name'' = Some (Str n) \<and> n \<noteq> []) \<and>
   (\<exists>v. map_of kw ''version_format'' = Some (Str v) \<and> v \<noteq> []) \<and>
   (\<exists>ds. map_of kw ''install_requires'' = Some (StrList ds) \<and> ds \<noteq> []) \<and>
   (\<exists>l. map_of kw ''license'' = Some (Str l) \<and> l \<noteq> []) \<and>
   map_of kw ''description'' = Some (Str ''Spatiotemporal query language'')"
  by (auto dest!: passed_mem simp: setup_kwargs_def)

theorem metadata_fields_present_witness:
  "setup_kwargs \<in> set (passed_to_setup env_installed ''__main__'' fresh) \<and>
   (\<exists>n. map_of setup_kwargs ''name'' = Some (Str n) \<and> n \<noteq> []) \<and>
   (\<exists>v. map_of setup_kwargs ''version_format'' = Some (Str v) \<and> v \<noteq> []) \<and>
   (\<exists>ds. map_of setup_kwargs ''install_requires'' = Some (StrList ds) \<and> ds \<noteq> []) \<and>
   (\<exists>l. map_of setup_kwargs ''license'' = Some (Str l) \<and> l \<noteq> []) \<and>
   map_of setup_kwargs ''description'' = Some (Str ''Spatiotemporal query language'')"
proof -
  have h: "setup_kwargs \<in> set (passed_to_setup env_installed ''__main__'' fresh)"
    by (simp add: passed_installed_main)
  from metadata_fields_present [OF h] h show ?thesis by simp
qed

section \<open>The distribution name and the package\<close>




section \<open>Effects and errors\<close>







section \<open>Determinism\<close>

text \<open>
  C10. The declared metadata does not depend on the run. Take two evaluations as the main
  program, in any two environments and from any two states: an argument list passed to
  \<open>setup\<close> in one equals any passed in the other; and where both imports succeed, each
  evaluation calls \<open>setup\<close> once, with the literal arguments of lines 5 to 16.
\<close>

theorem metadata_deterministic:
  "(kw1 \<in> set (passed_to_setup env1 ''__main__'' s1) \<longrightarrow>
      kw2 \<in> set (passed_to_setup env2 ''__main__'' s2) \<longrightarrow> kw1 = kw2) \<and>
   (resolve env1 ''setuptools'' ''setup'' \<noteq> None \<longrightarrow>
      resolve env2 ''setuptools'' ''setup'' \<noteq> None \<longrightarrow>
      passed_to_setup env1 ''__main__'' s1 = [setup_kwargs] \<and>
      passed_to_setup env2 ''__main__'' s2 = [setup_kwargs])"
  by (simp add: passed_to_setup_eq)

theorem metadata_deterministic_witness:
  "resolve env_installed ''setuptools'' ''setup'' \<noteq> None \<and>
   resolve env_failing ''setuptools'' ''setup'' \<noteq> None \<and>
   passed_to_setup env_installed ''__main__'' fresh = [setup_kwargs] \<and>
   passed_to_setup env_failing ''__main__'' (fresh\<lparr>events := [ImportFrom ''os'' ''path'']\<rparr>)
     = [setup_kwargs]"
proof -
  have h1: "resolve env_installed ''setuptools'' ''setup'' \<noteq> None"
    by (simp add: resolve_def env_installed_def)
  have h2: "resolve env_failing ''setuptools'' ''setup'' \<noteq> None"
    by (simp add: resolve_def env_failing_def)
  from metadata_deterministic [of setup_kwargs env_installed fresh setup_kwargs env_failing
      "fresh\<lparr>events := [ImportFrom ''os'' ''path'']\<rparr>"] h1 h2
  show ?thesis by simp
qed

end
